theory Spec2Isabelle
  imports Complex_Main "HOL-Library.Word"
begin

unbundle bit_operations_syntax

section \<open>Data model of index.js\<close>

text \<open>
  The game keeps its state in global variables. Numbers that hold board coordinates are
  integral and small, so they are modelled as \<open>int\<close>. The entries of
  \<open>_collisionRows\<close> are only ever \<open>0\<close> or results of the bitwise operators
  \<open>|\<close> and \<open>&\<close>, which JavaScript computes on 32-bit integers: they are
  modelled as \<open>32 word\<close>.
\<close>

datatype js_error = TypeError

text \<open>\<open>_boardWidth\<close>, \<open>_boardHeight\<close> and \<open>_fullRowVal = Math.pow(2, _boardWidth) - 1\<close>.\<close>

definition boardWidth :: int where
  "boardWidth = 10"

definition boardHeight :: int where
  "boardHeight = 22"

definition fullRowVal :: "32 word" where
  "fullRowVal = 2 ^ nat boardWidth - 1"

text \<open>
  An entry of a piece matrix: \<open>false\<close>, a colour string, or \<open>undefined\<close> (what an
  out-of-range read of a row yields). \<open>truthy\<close> is JavaScript's test \<open>!b\<close>
  negated: \<open>false\<close>, \<open>undefined\<close> and the empty string are falsy.
\<close>

datatype cell = Undefined | FalseCell | Color string

fun truthy :: "cell \<Rightarrow> bool" where
  "truthy Undefined = False"
| "truthy FalseCell = False"
| "truthy (Color c) = (c \<noteq> [])"

type_synonym matrix = "cell list list"

text \<open>The active piece \<open>{x, y, m}\<close>.\<close>

record piece =
  piece_x :: int
  piece_y :: int
  piece_m :: matrix

text \<open>
  \<open>_activePiece\<close> starts as the empty array \<open>[]\<close> (truthy, and without a field
  \<open>m\<close>), is set to a piece by \<open>SpawnNewPiece\<close> and to \<open>null\<close> by a landing.
\<close>

datatype active = EmptyArray | Null | Piece piece

text \<open>
  A square object \<open>{x, y, color}\<close>. The colour is the matrix entry the square was
  made from. Square objects are shared between \<open>_placedSquares\<close> and
  \<open>_fallingSquares\<close> and mutated in place (\<open>b.y++\<close>), so the state holds a store of
  square objects and the two arrays hold references (indices into the store). A new
  object gets the next free index. A JavaScript reference always points to an object:
  the states of the program are those whose references are below the length of the
  store. The theorem on the gravity step assumes it of the references in
  \<open>_fallingSquares\<close>.
\<close>

record square =
  sq_x :: int
  sq_y :: int
  sq_color :: cell

type_synonym ref = nat

text \<open>
  \<open>_collisionRows\<close> is a JavaScript array: reading an index that was never written
  yields \<open>undefined\<close> (\<open>None\<close>), writing any integer index stores the value there.
\<close>

type_synonym rows = "int \<Rightarrow> 32 word option"

record state =
  gameInPlay :: bool
  gamePaused :: bool
  placedSquares :: "ref list"
  fallingSquares :: "ref list"
  collisionRows :: rows
  activePiece :: active
  pieceInPlay :: bool
  store :: "square list"
  intervalActive :: bool

section \<open>The collision index\<close>

text \<open>
  The bitwise operators convert their operands with ToInt32: \<open>undefined\<close> becomes 0.
  \<open>1 << x\<close> shifts by \<open>x\<close> modulo 32.
\<close>

definition toInt32 :: "32 word option \<Rightarrow> 32 word" where
  "toInt32 v = (case v of None \<Rightarrow> 0 | Some w \<Rightarrow> w)"

definition shl1 :: "int \<Rightarrow> 32 word" where
  "shl1 x = push_bit (nat (x mod 32)) 1"

text \<open>\<open>_collisionRows[y] = _collisionRows[y] | (1 << x)\<close>\<close>

definition FixSquareAt :: "rows \<Rightarrow> int \<Rightarrow> int \<Rightarrow> rows" where
  "FixSquareAt cr x y = cr(y \<mapsto> toInt32 (cr y) OR shl1 x)"

text \<open>
  \<open>return _collisionRows[y] & (1 << x)\<close>: a number, used as a condition by every
  caller (non-zero is truthy).
\<close>

definition SquareFixedAt :: "rows \<Rightarrow> int \<Rightarrow> int \<Rightarrow> 32 word" where
  "SquareFixedAt cr x y = toInt32 (cr y) AND shl1 x"

text \<open>\<open>_collisionRows[y] = _collisionRows[y] & (1 << x)\<close>\<close>

definition UnfixSquareAt :: "rows \<Rightarrow> int \<Rightarrow> int \<Rightarrow> rows" where
  "UnfixSquareAt cr x y = cr(y \<mapsto> toInt32 (cr y) AND shl1 x)"

section \<open>Piece generation\<close>

text \<open>
  The seven piece objects of \<open>GenerateNewPiece\<close>: a colour and a grid of 0s and 1s.
\<close>

record template =
  tmpl_color :: string
  tmpl_blocks :: "nat list list"

definition iPiece :: template where
  "iPiece = \<lparr>tmpl_color = ''cyan'',
     tmpl_blocks = [[0, 0, 0, 0], [1, 1, 1, 1], [0, 0, 0, 0], [0, 0, 0, 0]]\<rparr>"

definition jPiece :: template where
  "jPiece = \<lparr>tmpl_color = ''blue'', tmpl_blocks = [[1, 0, 0], [1, 1, 1], [0, 0, 0]]\<rparr>"

definition lPiece :: template where
  "lPiece = \<lparr>tmpl_color = ''orange'', tmpl_blocks = [[0, 0, 1], [1, 1, 1], [0, 0, 0]]\<rparr>"

definition oPiece :: template where
  "oPiece = \<lparr>tmpl_color = ''yellow'',
     tmpl_blocks = [[0, 0, 0, 0], [0, 1, 1, 0], [0, 1, 1, 0], [0, 0, 0, 0]]\<rparr>"

definition sPiece :: template where
  "sPiece = \<lparr>tmpl_color = ''green'', tmpl_blocks = [[0, 1, 1], [1, 1, 0], [0, 0, 0]]\<rparr>"

definition tPiece :: template where
  "tPiece = \<lparr>tmpl_color = ''purple'', tmpl_blocks = [[0, 1, 0], [1, 1, 1], [0, 0, 0]]\<rparr>"

definition zPiece :: template where
  "zPiece = \<lparr>tmpl_color = ''red'', tmpl_blocks = [[1, 1, 0], [0, 1, 1], [0, 0, 0]]\<rparr>"

definition pieceTypes :: "template list" where
  "pieceTypes = [iPiece, jPiece, lPiece, oPiece, sPiece, tPiece, zPiece]"

text \<open>
  \<open>Math.round\<close> rounds to the nearest integer, a tie towards plus infinity. The
  value of \<open>Math.random()\<close> is a parameter \<open>r\<close> with \<open>0 \<le> r < 1\<close>, an exact real
  (the rounding of the double-precision product is not modelled).
\<close>

definition Math_round :: "real \<Rightarrow> int" where
  "Math_round v = \<lfloor>v + 1 / 2\<rfloor>"

text \<open>\<open>Math.round(Math.random()*(pieceTypes.length-1))\<close>\<close>

definition pieceIndex :: "real \<Rightarrow> int" where
  "pieceIndex r = Math_round (r * (real (length pieceTypes) - 1))"

text \<open>The matrix built from a template: 0 becomes \<open>false\<close>, anything else the colour.\<close>

definition buildMatrix :: "template \<Rightarrow> matrix" where
  "buildMatrix t =
     map (map (\<lambda>item. if item = 0 then FalseCell else Color (tmpl_color t))) (tmpl_blocks t)"

text \<open>
  An index outside the array makes \<open>randomPiece\<close> undefined, and reading
  \<open>randomPiece.blocks\<close> throws.
\<close>

definition GenerateNewPiece :: "real \<Rightarrow> js_error + piece" where
  "GenerateNewPiece r =
     (let k = pieceIndex r in
      if 0 \<le> k \<and> k < int (length pieceTypes)
      then Inr \<lparr>piece_x = 0, piece_y = 0, piece_m = buildMatrix (pieceTypes ! nat k)\<rparr>
      else Inl TypeError)"

section \<open>Drawing\<close>

text \<open>
  \<open>Draw\<close> changes no game state. It throws when \<open>_activePiece\<close> is the initial
  empty array: that is truthy, and \<open>_activePiece.m.forEach\<close> reads a property of
  \<open>undefined\<close>.
\<close>

definition Draw :: "state \<Rightarrow> js_error option" where
  "Draw s = (case activePiece s of EmptyArray \<Rightarrow> Some TypeError | Null \<Rightarrow> None | Piece p \<Rightarrow> None)"

section \<open>Spawning\<close>

text \<open>
  The inner loop of \<open>SpawnNewPiece\<close> over one row of the matrix, from column \<open>j\<close>;
  \<open>y\<close> is \<open>piece.y + i\<close>. The result is \<open>True\<close> when the loop executes
  \<open>return false\<close>.
\<close>

fun spawnRowBlocked :: "rows \<Rightarrow> int \<Rightarrow> int \<Rightarrow> cell list \<Rightarrow> int \<Rightarrow> bool" where
  "spawnRowBlocked cr x0 y [] j = False"
| "spawnRowBlocked cr x0 y (sq # row) j =
     (if \<not> truthy sq then spawnRowBlocked cr x0 y row (j + 1)
      else if SquareFixedAt cr (x0 + j) y \<noteq> 0 then True
      else spawnRowBlocked cr x0 y row (j + 1))"

fun spawnBlocked :: "rows \<Rightarrow> int \<Rightarrow> int \<Rightarrow> matrix \<Rightarrow> int \<Rightarrow> bool" where
  "spawnBlocked cr x0 y0 [] i = False"
| "spawnBlocked cr x0 y0 (row # m) i =
     (if spawnRowBlocked cr x0 (y0 + i) row 0 then True
      else spawnBlocked cr x0 y0 m (i + 1))"

text \<open>
  \<open>SpawnNewPiece\<close> after \<open>let piece = GenerateNewPiece()\<close>: the offset, the check
  and the assignment. It returns the boolean and the state.
\<close>

definition spawnPiece :: "piece \<Rightarrow> state \<Rightarrow> bool \<times> state" where
  "spawnPiece p0 s =
     (let p = p0\<lparr>piece_x := piece_x p0 + (Math_round (real_of_int boardWidth / 2) - 2)\<rparr> in
      if spawnBlocked (collisionRows s) (piece_x p) (piece_y p) (piece_m p) 0
      then (False, s)
      else (True, s\<lparr>activePiece := Piece p, pieceInPlay := True\<rparr>))"

definition SpawnNewPiece :: "real \<Rightarrow> state \<Rightarrow> js_error + bool \<times> state" where
  "SpawnNewPiece r s =
     (case GenerateNewPiece r of Inl e \<Rightarrow> Inl e | Inr p0 \<Rightarrow> Inr (spawnPiece p0 s))"

definition SetGameOver :: "state \<Rightarrow> state" where
  "SetGameOver s = s\<lparr>gameInPlay := False\<rparr>"

section \<open>Gravity\<close>

text \<open>
  The collision check of \<open>ProcessGravity\<close>. The inner loop runs over one row from
  column \<open>j\<close> and carries \<open>movePlayerPiece\<close>; \<open>break\<close> leaves the inner loop
  only, and the outer loop goes on with the next row.
\<close>

fun gravityRow :: "rows \<Rightarrow> int \<Rightarrow> int \<Rightarrow> cell list \<Rightarrow> int \<Rightarrow> bool \<Rightarrow> bool" where
  "gravityRow cr x0 y [] j mv = mv"
| "gravityRow cr x0 y (b # row) j mv =
     (if \<not> truthy b then gravityRow cr x0 y row (j + 1) mv
      else if y > boardHeight - 2 \<or> SquareFixedAt cr (x0 + j) (y + 1) \<noteq> 0 then False
      else gravityRow cr x0 y row (j + 1) mv)"

fun gravityRows :: "rows \<Rightarrow> int \<Rightarrow> int \<Rightarrow> matrix \<Rightarrow> int \<Rightarrow> bool \<Rightarrow> bool" where
  "gravityRows cr x0 y0 [] i mv = mv"
| "gravityRows cr x0 y0 (row # m) i mv =
     gravityRows cr x0 y0 m (i + 1) (gravityRow cr x0 (y0 + i) row 0 mv)"

text \<open>
  The landing: for every truthy entry, \<open>FixSquareAt(x, y)\<close> and a new square object
  pushed onto \<open>_placedSquares\<close>.
\<close>

fun landRow :: "int \<Rightarrow> int \<Rightarrow> cell list \<Rightarrow> int \<Rightarrow> state \<Rightarrow> state" where
  "landRow x0 y [] j s = s"
| "landRow x0 y (b # row) j s =
     (if \<not> truthy b then landRow x0 y row (j + 1) s
      else landRow x0 y row (j + 1)
        (s\<lparr>collisionRows := FixSquareAt (collisionRows s) (x0 + j) y,
           store := store s @ [\<lparr>sq_x = x0 + j, sq_y = y, sq_color = b\<rparr>],
           placedSquares := placedSquares s @ [length (store s)]\<rparr>))"

fun landRows :: "int \<Rightarrow> int \<Rightarrow> matrix \<Rightarrow> int \<Rightarrow> state \<Rightarrow> state" where
  "landRows x0 y0 [] i s = s"
| "landRows x0 y0 (row # m) i s = landRows x0 y0 m (i + 1) (landRow x0 (y0 + i) row 0 s)"

text \<open>
  The pass over \<open>_fallingSquares\<close>: a square that can fall has its \<open>y\<close> incremented
  in place and is pushed onto \<open>stillFalling\<close>; any other is fixed where it is.
\<close>

fun fallLoop :: "ref list \<Rightarrow> state \<Rightarrow> ref list \<Rightarrow> state \<times> ref list" where
  "fallLoop [] s stillFalling = (s, stillFalling)"
| "fallLoop (b # bs) s stillFalling =
     (let sq = store s ! b in
      if sq_y sq < boardHeight - 1 \<and> \<not> (SquareFixedAt (collisionRows s) (sq_x sq) (sq_y sq + 1) \<noteq> 0)
      then fallLoop bs (s\<lparr>store := (store s)[b := sq\<lparr>sq_y := sq_y sq + 1\<rparr>]\<rparr>) (stillFalling @ [b])
      else fallLoop bs (s\<lparr>collisionRows := FixSquareAt (collisionRows s) (sq_x sq) (sq_y sq)\<rparr>)
             stillFalling)"

definition fallSquares :: "state \<Rightarrow> state" where
  "fallSquares s =
     (let (s', stillFalling) = fallLoop (fallingSquares s) s [] in
      s'\<lparr>fallingSquares := stillFalling\<rparr>)"

text \<open>
  The piece part of \<open>ProcessGravity\<close>, for an active piece \<open>p\<close>: one step down, or
  the landing.
\<close>

definition gravityPiece :: "piece \<Rightarrow> state \<Rightarrow> state" where
  "gravityPiece p s =
     (if gravityRows (collisionRows s) (piece_x p) (piece_y p) (piece_m p) 0 True
      then s\<lparr>activePiece := Piece (p\<lparr>piece_y := piece_y p + 1\<rparr>)\<rparr>
      else (landRows (piece_x p) (piece_y p) (piece_m p) 0 s)
             \<lparr>activePiece := Null, pieceInPlay := False\<rparr>)"

text \<open>
  \<open>ProcessGravity\<close> reads \<open>_activePiece.m.length\<close> first: that throws when
  \<open>_activePiece\<close> is \<open>null\<close> or the initial empty array.
\<close>

definition ProcessGravity :: "state \<Rightarrow> js_error + state" where
  "ProcessGravity s =
     (case activePiece s of
        EmptyArray \<Rightarrow> Inl TypeError
      | Null \<Rightarrow> Inl TypeError
      | Piece p \<Rightarrow> Inr (fallSquares (gravityPiece p s)))"

section \<open>Row clearing\<close>

text \<open>
  The loop of \<open>RemoveRow\<close> over \<open>_placedSquares\<close>; \<open>newBoard\<close> is carried
  along.
\<close>

fun removeLoop :: "int \<Rightarrow> ref list \<Rightarrow> state \<Rightarrow> ref list \<Rightarrow> state \<times> ref list" where
  "removeLoop rowIndex [] s newBoard = (s, newBoard)"
| "removeLoop rowIndex (b # bs) s newBoard =
     (let sq = store s ! b in
      if sq_y sq = rowIndex then removeLoop rowIndex bs s newBoard
      else removeLoop rowIndex bs
             (s\<lparr>collisionRows := UnfixSquareAt (collisionRows s) (sq_x sq) (sq_y sq),
                fallingSquares := fallingSquares s @ [b]\<rparr>)
             (newBoard @ [b]))"

definition RemoveRow :: "int \<Rightarrow> state \<Rightarrow> state" where
  "RemoveRow rowIndex s =
     (let s0 = s\<lparr>collisionRows := (collisionRows s)(rowIndex \<mapsto> 0)\<rparr>;
          (s1, newBoard) = removeLoop rowIndex (placedSquares s0) s0 []
      in s1\<lparr>placedSquares := newBoard\<rparr>)"

text \<open>
  \<open>CheckForRowsCleared\<close>: the loop over the row indices. The comparison
  \<open>_collisionRows[i] == _fullRowVal\<close> holds exactly when the entry is the 32-bit
  integer 1023. \<open>Draw()\<close> after a removal can throw.
\<close>

fun checkRows :: "int list \<Rightarrow> state \<Rightarrow> js_error + state" where
  "checkRows [] s = Inr s"
| "checkRows (i # rest) s =
     (if collisionRows s i = Some fullRowVal
      then (let s' = RemoveRow i s in
            case Draw s' of Some e \<Rightarrow> Inl e | None \<Rightarrow> checkRows rest s')
      else checkRows rest s)"

definition CheckForRowsCleared :: "state \<Rightarrow> js_error + state" where
  "CheckForRowsCleared s = checkRows [0..boardHeight - 1] s"

section \<open>The game loop\<close>

text \<open>The part of \<open>GameLoop\<close> after the spawn: draw, gravity, row check.\<close>

definition loopBody :: "state \<Rightarrow> js_error + state" where
  "loopBody s =
     (case Draw s of
        Some e \<Rightarrow> Inl e
      | None \<Rightarrow> (case ProcessGravity s of Inl e \<Rightarrow> Inl e | Inr s' \<Rightarrow> CheckForRowsCleared s'))"

definition GameLoop :: "real \<Rightarrow> state \<Rightarrow> js_error + state" where
  "GameLoop r s =
     (if gamePaused s then Inr s
      else if \<not> pieceInPlay s then
        (case SpawnNewPiece r s of
           Inl e \<Rightarrow> Inl e
         | Inr (ok, s') \<Rightarrow> if \<not> ok then Inr (SetGameOver s') else loopBody s')
      else loopBody s)"

section \<open>Player input\<close>

text \<open>
  The inner loop of \<open>MovePieceSideways\<close> over one row from column \<open>j\<close>. The result
  is \<open>True\<close> when the loop executes one of the two \<open>return\<close> statements. In
  JavaScript \<open>&&\<close> binds tighter than \<open>||\<close>.
\<close>

fun sidewaysRow :: "rows \<Rightarrow> bool \<Rightarrow> int \<Rightarrow> int \<Rightarrow> cell list \<Rightarrow> int \<Rightarrow> bool" where
  "sidewaysRow cr moveLeft x0 y [] j = False"
| "sidewaysRow cr moveLeft x0 y (b # row) j =
     (if \<not> truthy b then sidewaysRow cr moveLeft x0 y row (j + 1)
      else if (moveLeft \<and> x0 + j = 0) \<or> SquareFixedAt cr (x0 + j - 1) y \<noteq> 0 then True
      else if (\<not> moveLeft \<and> x0 + j = boardWidth - 1) \<or> SquareFixedAt cr (x0 + j + 1) y \<noteq> 0
      then True
      else sidewaysRow cr moveLeft x0 y row (j + 1))"

fun sidewaysRows :: "rows \<Rightarrow> bool \<Rightarrow> int \<Rightarrow> int \<Rightarrow> matrix \<Rightarrow> int \<Rightarrow> bool" where
  "sidewaysRows cr moveLeft x0 y0 [] i = False"
| "sidewaysRows cr moveLeft x0 y0 (row # m) i =
     (if sidewaysRow cr moveLeft x0 (y0 + i) row 0 then True
      else sidewaysRows cr moveLeft x0 y0 m (i + 1))"

definition MovePieceSideways :: "bool \<Rightarrow> state \<Rightarrow> js_error + state" where
  "MovePieceSideways moveLeft s =
     (case activePiece s of
        Null \<Rightarrow> Inr s
      | EmptyArray \<Rightarrow> Inl TypeError
      | Piece p \<Rightarrow>
          if sidewaysRows (collisionRows s) moveLeft (piece_x p) (piece_y p) (piece_m p) 0
          then Inr s
          else Inr (s\<lparr>activePiece :=
                 Piece (p\<lparr>piece_x := piece_x p + (if moveLeft then - 1 else 1)\<rparr>)\<rparr>))"

text \<open>
  \<open>m[i][j]\<close> for a row \<open>i\<close> that exists: an entry, or \<open>undefined\<close> beyond the end
  of the row.
\<close>

definition cellAt :: "matrix \<Rightarrow> nat \<Rightarrow> nat \<Rightarrow> cell" where
  "cellAt m i j = (let row = m ! i in if j < length row then row ! j else Undefined)"

text \<open>
  \<open>RotatePiece\<close>. With four rows every row read exists. Otherwise the first read is
  \<open>m[2][0]\<close>, which throws when there is no row 2.
\<close>

definition RotatePiece :: "matrix \<Rightarrow> js_error + matrix" where
  "RotatePiece m =
     (if length m = 4 then
        Inr [[cellAt m 3 0, cellAt m 2 0, cellAt m 1 0, cellAt m 0 0],
             [cellAt m 3 1, cellAt m 2 1, cellAt m 1 1, cellAt m 0 1],
             [cellAt m 3 2, cellAt m 2 2, cellAt m 1 2, cellAt m 0 2],
             [cellAt m 3 3, cellAt m 2 3, cellAt m 1 3, cellAt m 0 3]]
      else if length m < 3 then Inl TypeError
      else
        Inr [[cellAt m 2 0, cellAt m 1 0, cellAt m 0 0],
             [cellAt m 2 1, cellAt m 1 1, cellAt m 0 1],
             [cellAt m 2 2, cellAt m 1 2, cellAt m 0 2]])"

text \<open>The \<open>ArrowUp\<close> case of \<open>HandleKeyInput\<close>.\<close>

definition rotateActive :: "state \<Rightarrow> js_error + state" where
  "rotateActive s =
     (case activePiece s of
        Null \<Rightarrow> Inr s
      | EmptyArray \<Rightarrow> Inl TypeError
      | Piece p \<Rightarrow>
          (case RotatePiece (piece_m p) of
             Inl e \<Rightarrow> Inl e
           | Inr m' \<Rightarrow> Inr (s\<lparr>activePiece := Piece (p\<lparr>piece_m := m'\<rparr>)\<rparr>)))"

definition HandleKeyInput :: "string \<Rightarrow> state \<Rightarrow> js_error + state" where
  "HandleKeyInput k s =
     (if k = ''ArrowLeft'' then MovePieceSideways True s
      else if k = ''ArrowUp'' then rotateActive s
      else if k = ''ArrowRight'' then MovePieceSideways False s
      else if k = ''p'' then Inr (s\<lparr>gamePaused := \<not> gamePaused s\<rparr>)
      else Inr s)"

section \<open>Start of the game and events\<close>

text \<open>The globals after the script has loaded.\<close>

definition initialState :: state where
  "initialState =
     \<lparr>gameInPlay = True, gamePaused = False, placedSquares = [], fallingSquares = [],
      collisionRows = Map.empty, activePiece = EmptyArray, pieceInPlay = False,
      store = [], intervalActive = False\<rparr>"

text \<open>
  \<open>StartGame\<close> pushes \<open>_boardHeight\<close> zeros onto \<open>_collisionRows\<close>, which is empty
  when it runs (so push number \<open>i\<close> writes index \<open>i\<close>), and starts the interval.
\<close>

definition StartGame :: "state \<Rightarrow> state" where
  "StartGame s =
     s\<lparr>collisionRows := fold (\<lambda>i cr. cr(i \<mapsto> 0)) [0..boardHeight - 1] (collisionRows s),
       intervalActive := True\<rparr>"

text \<open>
  The interval callback: when the game is over it logs, clears the interval, and still
  calls \<open>GameLoop\<close> once.
\<close>

definition intervalCallback :: "real \<Rightarrow> state \<Rightarrow> js_error + state" where
  "intervalCallback r s =
     (if \<not> gameInPlay s then GameLoop r (s\<lparr>intervalActive := False\<rparr>) else GameLoop r s)"

text \<open>
  The events that drive the game: a firing of the interval (with the value
  \<open>Math.random()\<close> would return in it) and a key press. Once the interval is cleared
  it does not fire: a \<open>Timer\<close> event then changes nothing. An exception ends the run
  of the model; the state the globals are left in is not tracked.
\<close>

datatype event = Timer real | KeyDown string

fun step :: "event \<Rightarrow> state \<Rightarrow> js_error + state" where
  "step (Timer r) s = (if intervalActive s then intervalCallback r s else Inr s)"
| "step (KeyDown k) s = HandleKeyInput k s"

fun run :: "event list \<Rightarrow> state \<Rightarrow> js_error + state" where
  "run [] s = Inr s"
| "run (e # es) s = (case step e s of Inl err \<Rightarrow> Inl err | Inr s' \<Rightarrow> run es s')"

section \<open>Notions used in the statements\<close>

subsection \<open>Rotation\<close>

text \<open>\<open>n\<close> successive rotations; an exception of one of them ends the sequence.\<close>

fun rotTimes :: "nat \<Rightarrow> matrix \<Rightarrow> js_error + matrix" where
  "rotTimes 0 m = Inr m"
| "rotTimes (Suc n) m = (case RotatePiece m of Inl e \<Rightarrow> Inl e | Inr m' \<Rightarrow> rotTimes n m')"

text \<open>A matrix of three rows of three entries.\<close>

definition square3 :: "matrix \<Rightarrow> bool" where
  "square3 m = (length m = 3 \<and> list_all (\<lambda>row. length row = 3) m)"

subsection \<open>The occupied cells of a piece\<close>

text \<open>
  The truthy entries of a matrix with their row index \<open>i\<close> and column index \<open>j\<close>,
  in the order the loops of the game visit them, and the same entries in board
  coordinates \<open>(piece.x + j, piece.y + i)\<close>.
\<close>

fun occupiedInRow :: "int \<Rightarrow> cell list \<Rightarrow> int \<Rightarrow> (int \<times> int \<times> cell) list" where
  "occupiedInRow i [] j = []"
| "occupiedInRow i (b # row) j =
     (if truthy b then (i, j, b) # occupiedInRow i row (j + 1) else occupiedInRow i row (j + 1))"

fun occupiedFrom :: "matrix \<Rightarrow> int \<Rightarrow> (int \<times> int \<times> cell) list" where
  "occupiedFrom [] i = []"
| "occupiedFrom (row # m) i = occupiedInRow i row 0 @ occupiedFrom m (i + 1)"

definition toBoard :: "int \<Rightarrow> int \<Rightarrow> int \<times> int \<times> cell \<Rightarrow> int \<times> int \<times> cell" where
  "toBoard x0 y0 = (\<lambda>(i, j, b). (x0 + j, y0 + i, b))"

definition occupiedCells :: "piece \<Rightarrow> (int \<times> int \<times> cell) list" where
  "occupiedCells p = map (toBoard (piece_x p) (piece_y p)) (occupiedFrom (piece_m p) 0)"

subsection \<open>Landing a list of cells\<close>

text \<open>
  What the landing does for one occupied cell \<open>(x, y, b)\<close>: the bit is fixed and a new
  square object is pushed onto \<open>_placedSquares\<close>. \<open>landCells\<close> does it for a list
  of cells; the lemmas below show that the loops \<open>landRow\<close> and \<open>landRows\<close> of the
  model compute it for the occupied cells.
\<close>

definition mkSquare :: "int \<times> int \<times> cell \<Rightarrow> square" where
  "mkSquare = (\<lambda>(x, y, b). \<lparr>sq_x = x, sq_y = y, sq_color = b\<rparr>)"

definition fixCell :: "int \<times> int \<times> cell \<Rightarrow> rows \<Rightarrow> rows" where
  "fixCell = (\<lambda>(x, y, b) cr. FixSquareAt cr x y)"

fun landCells :: "(int \<times> int \<times> cell) list \<Rightarrow> state \<Rightarrow> state" where
  "landCells [] s = s"
| "landCells (c # cells) s =
     landCells cells
       (s\<lparr>collisionRows := fixCell c (collisionRows s),
          store := store s @ [mkSquare c],
          placedSquares := placedSquares s @ [length (store s)]\<rparr>)"

subsection \<open>Squares and rows of a board\<close>

text \<open>The row a square object is in, and the placed squares at a coordinate.\<close>

definition rowOf :: "state \<Rightarrow> ref \<Rightarrow> int" where
  "rowOf s b = sq_y (store s ! b)"

definition squaresAt :: "state \<Rightarrow> int \<Rightarrow> int \<Rightarrow> ref list" where
  "squaresAt s c r =
     filter (\<lambda>b. sq_x (store s ! b) = c \<and> sq_y (store s ! b) = r) (placedSquares s)"

text \<open>
  What a state shows of the board: the coordinates of the placed squares, the
  references in \<open>_fallingSquares\<close>, and the masks of the rows 19, 20 and 21.
\<close>

definition boardView :: "state \<Rightarrow> (int \<times> int) list \<times> ref list \<times> 32 word list" where
  "boardView s =
     (map (\<lambda>b. (sq_x (store s ! b), sq_y (store s ! b))) (placedSquares s),
      fallingSquares s,
      map (\<lambda>y. toInt32 (collisionRows s y)) [19, 20, 21])"

text \<open>
  The consistency of the collision index with the squares on the board: for every
  board coordinate, the bit of column \<open>c\<close> in row \<open>r\<close> is set exactly when one
  placed square is at \<open>(c, r)\<close>; and no two placed squares share a coordinate.
\<close>

definition cellConsistent :: "state \<Rightarrow> int \<Rightarrow> int \<Rightarrow> bool" where
  "cellConsistent s r c =
     ((SquareFixedAt (collisionRows s) c r \<noteq> 0) = (length (squaresAt s c r) = 1))"

definition consistent :: "state \<Rightarrow> bool" where
  "consistent s =
     (list_all (\<lambda>r. list_all (cellConsistent s r) [0..boardWidth - 1]) [0..boardHeight - 1]
      \<and> distinct (map (\<lambda>b. (sq_x (store s ! b), sq_y (store s ! b))) (placedSquares s)))"

text \<open>
  Row \<open>i\<close> is released: its mask is 0 and no placed square is in it. (The third
  conjunct says that \<open>Draw\<close> does not throw.)
\<close>

definition released :: "int \<Rightarrow> state \<Rightarrow> bool" where
  "released i s =
     (collisionRows s i = Some 0 \<and> list_all (\<lambda>b. rowOf s b \<noteq> i) (placedSquares s)
      \<and> activePiece s \<noteq> EmptyArray)"

subsection \<open>Concrete boards and games\<close>

text \<open>The rows of a new game with a square fixed at (3, 1), a cell of the spawning I piece.\<close>

definition blockedRows :: rows where
  "blockedRows = FixSquareAt (collisionRows (StartGame initialState)) 3 1"

text \<open>An I piece in a new game: at the top, and with its squares in the bottom row.\<close>

definition fallingState :: state where
  "fallingState = (StartGame initialState)
     \<lparr>activePiece := Piece \<lparr>piece_x = 3, piece_y = 0, piece_m = buildMatrix iPiece\<rparr>,
      pieceInPlay := True\<rparr>"

definition landingState :: state where
  "landingState = (StartGame initialState)
     \<lparr>activePiece := Piece \<lparr>piece_x = 3, piece_y = 20, piece_m = buildMatrix iPiece\<rparr>,
      pieceInPlay := True\<rparr>"

text \<open>
  A game from the start: an O piece is moved to columns 0 and 1 and lands in rows 20 and
  21; a second O piece is moved next to it, to columns 2 and 3, and has fallen to rows 19
  and 20. The draw 1/2 selects the O piece.
\<close>

definition besideGame :: "event list" where
  "besideGame =
     [Timer (1 / 2), KeyDown ''ArrowLeft'', KeyDown ''ArrowLeft'', KeyDown ''ArrowLeft'',
      KeyDown ''ArrowLeft'']
     @ replicate 19 (Timer 0)
     @ [Timer (1 / 2), KeyDown ''ArrowLeft'', KeyDown ''ArrowLeft'']
     @ replicate 17 (Timer 0)"

text \<open>
  Boards with a full row 20, no active piece, and below it in row 21 two squares
  (\<open>belowState\<close>) or a second full row (\<open>twoFullState\<close>). They are built with the
  landing loop of the model.
\<close>

definition fullRow :: "cell list" where
  "fullRow = replicate (nat boardWidth) (Color ''red'')"

definition belowState :: state where
  "belowState =
     (landRows 0 20 [fullRow, [Color ''red'', Color ''red'']] 0 (StartGame initialState))
       \<lparr>activePiece := Null\<rparr>"

definition twoFullState :: state where
  "twoFullState =
     (landRows 0 20 [fullRow, fullRow] 0 (StartGame initialState))\<lparr>activePiece := Null\<rparr>"

text \<open>
  A game from the start: an I piece is moved to columns 0 to 3 and falls to row 21, a
  second I piece is moved to columns 4 to 7 and falls to row 21, and an L piece is
  rotated once and moved to columns 8 and 9, where it has fallen to rows 19 to 21 and
  is about to land. The draws 0 and 1/3 select the I and the L piece.
\<close>

definition staleBitGame :: "event list" where
  "staleBitGame =
     [Timer 0, KeyDown ''ArrowLeft'', KeyDown ''ArrowLeft'', KeyDown ''ArrowLeft'']
     @ replicate 20 (Timer 0)
     @ [Timer 0, KeyDown ''ArrowRight''] @ replicate 20 (Timer 0)
     @ [Timer (1 / 3), KeyDown ''ArrowUp'', KeyDown ''ArrowRight'', KeyDown ''ArrowRight'',
        KeyDown ''ArrowRight'', KeyDown ''ArrowRight'']
     @ replicate 18 (Timer 0)"

section \<open>The collision index: fixing and unfixing\<close>

lemma shl1_nonzero: "shl1 x \<noteq> 0"
proof -
  have "nat (x mod 32) < 32"
    by simp
  then have "(2::32 word) ^ nat (x mod 32) \<noteq> 0"
    by (simp add: possible_bit_word)
  then show ?thesis
    by (simp add: shl1_def push_bit_eq_mult)
qed

text \<open>\<open>_fullRowVal\<close> is 1023; the equation is also the one evaluation uses.\<close>

lemma fullRowVal_code [code]: "fullRowVal = 1023"
  by (simp add: fullRowVal_def boardWidth_def)

lemma fix_then_fixed: "SquareFixedAt (FixSquareAt cr x y) x y = shl1 x"
  by (simp add: SquareFixedAt_def FixSquareAt_def toInt32_def word_ao_absorbs)

lemma unfix_then_fixed: "SquareFixedAt (UnfixSquareAt cr x y) x y = SquareFixedAt cr x y"
  by (simp add: SquareFixedAt_def UnfixSquareAt_def toInt32_def word_bw_assocs)

text \<open>
  Claim C2. After \<open>FixSquareAt(x, y)\<close> the query \<open>SquareFixedAt(x, y)\<close> is truthy.
  After \<open>UnfixSquareAt(x, y)\<close> the query returns what it returned before the call:
  the mask is ANDed with the bit itself, so a set bit stays set. On the board of a new
  game, fixing (3, 5) and then unfixing it leaves \<open>SquareFixedAt(3, 5) = 8\<close>.
\<close>

theorem C2_unfix_leaves_bit_set:
  "SquareFixedAt (FixSquareAt cr x y) x y \<noteq> 0
   \<and> SquareFixedAt (UnfixSquareAt cr x y) x y = SquareFixedAt cr x y
   \<and> SquareFixedAt
        (UnfixSquareAt (FixSquareAt (collisionRows (StartGame initialState)) 3 5) 3 5) 3 5 = 8"
proof -
  have "shl1 3 = 8"
    by (simp add: shl1_def)
  then show ?thesis
    by (simp add: fix_then_fixed unfix_then_fixed shl1_nonzero)
qed

text \<open>\<open>FixSquareAt\<close> never clears a bit.\<close>

lemma fix_keeps_bits:
  assumes "SquareFixedAt cr x y \<noteq> 0"
  shows "SquareFixedAt (FixSquareAt cr x' y') x y \<noteq> 0"
proof (cases "y' = y")
  case True
  have "(toInt32 (cr y) OR shl1 x') AND shl1 x =
      (toInt32 (cr y) AND shl1 x) OR (shl1 x' AND shl1 x)"
    by (simp add: bit.conj_disj_distrib2)
  moreover have "toInt32 (cr y) AND shl1 x \<noteq> 0"
    using assms by (simp add: SquareFixedAt_def)
  ultimately have "(toInt32 (cr y) OR shl1 x') AND shl1 x \<noteq> 0"
    by (simp add: or_eq_0_iff)
  with True show ?thesis
    by (simp add: SquareFixedAt_def FixSquareAt_def toInt32_def)
next
  case False
  with assms show ?thesis
    by (simp add: SquareFixedAt_def FixSquareAt_def)
qed

text \<open>The rows of a new game.\<close>

lemma StartGame_rows:
  "collisionRows (StartGame initialState) y = (if 0 \<le> y \<and> y \<le> 21 then Some 0 else None)"
proof -
  have "fold (\<lambda>i cr. cr(i \<mapsto> 0)) ks cr y = (if y \<in> set ks then Some (0::32 word) else cr y)"
    for ks :: "int list" and cr
    by (induction ks arbitrary: cr) auto
  then show ?thesis
    by (simp add: StartGame_def initialState_def boardHeight_def)
qed

lemma StartGame_free: "SquareFixedAt (collisionRows (StartGame initialState)) x y = 0"
  by (simp add: SquareFixedAt_def StartGame_rows toInt32_def)

section \<open>Rotation\<close>

lemma list3: "length xs = 3 \<Longrightarrow> \<exists>a b c. xs = [a, b, c]"
  by (auto simp: length_Suc_conv numeral_3_eq_3)

lemma square3_cases:
  assumes "square3 m"
  obtains a b c d e f g h k where "m = [[a, b, c], [d, e, f], [g, h, k]]"
proof -
  from assms have "length m = 3"
    by (simp add: square3_def)
  then obtain r0 r1 r2 where m: "m = [r0, r1, r2]"
    using list3 by blast
  with assms have "length r0 = 3" "length r1 = 3" "length r2 = 3"
    by (simp_all add: square3_def)
  then obtain a b c d e f g h k where "r0 = [a, b, c]" "r1 = [d, e, f]" "r2 = [g, h, k]"
    using list3 by metis
  with m show thesis
    using that by blast
qed

lemma RotatePiece_3x3:
  "RotatePiece [[a, b, c], [d, e, f], [g, h, k]] = Inr [[g, d, a], [h, e, b], [k, f, c]]"
  by (simp add: RotatePiece_def cellAt_def)

text \<open>
  Claim C8. For every 3x3 matrix \<open>m\<close>, four applications of \<open>RotatePiece\<close> return
  \<open>m\<close>, and two applications return the matrix turned by 180 degrees (the rows in
  reverse order, each row reversed).
\<close>

theorem C8_rotate_four_times:
  assumes "square3 m"
  shows "rotTimes 4 m = Inr m \<and> rotTimes 2 m = Inr (rev (map rev m))"
proof -
  from assms obtain a b c d e f g h k where m: "m = [[a, b, c], [d, e, f], [g, h, k]]"
    by (rule square3_cases)
  have four: "(4::nat) = Suc (Suc (Suc (Suc 0)))" and two: "(2::nat) = Suc (Suc 0)"
    by simp_all
  show ?thesis
    unfolding m four two by (simp add: RotatePiece_3x3)
qed

theorem C8_rotate_four_times_witness:
  "square3 (buildMatrix tPiece)
   \<and> rotTimes 4 (buildMatrix tPiece) = Inr (buildMatrix tPiece)
   \<and> rotTimes 2 (buildMatrix tPiece) =
       Inr [[FalseCell, FalseCell, FalseCell],
            [Color ''purple'', Color ''purple'', Color ''purple''],
            [FalseCell, Color ''purple'', FalseCell]]"
proof -
  have h: "square3 (buildMatrix tPiece)"
    by (simp add: square3_def buildMatrix_def tPiece_def)
  show ?thesis
    using h C8_rotate_four_times [OF h] by (simp add: buildMatrix_def tPiece_def)
qed

section \<open>Input without an active piece\<close>

text \<open>
  Claim C10. When \<open>_activePiece\<close> is \<open>null\<close> (after a landing, before the next
  spawn), \<open>MovePieceSideways\<close> in either direction and the rotation of
  \<open>HandleKeyInput\<close> return normally and leave the whole state as it was.
\<close>

theorem C10_no_piece_input_noop:
  assumes "activePiece s = Null"
  shows "MovePieceSideways moveLeft s = Inr s \<and> rotateActive s = Inr s
    \<and> HandleKeyInput ''ArrowLeft'' s = Inr s \<and> HandleKeyInput ''ArrowRight'' s = Inr s
    \<and> HandleKeyInput ''ArrowUp'' s = Inr s"
  using assms by (simp add: MovePieceSideways_def rotateActive_def HandleKeyInput_def)

theorem C10_no_piece_input_noop_witness:
  "activePiece ((StartGame initialState)\<lparr>activePiece := Null\<rparr>) = Null
   \<and> MovePieceSideways True ((StartGame initialState)\<lparr>activePiece := Null\<rparr>) =
       Inr ((StartGame initialState)\<lparr>activePiece := Null\<rparr>)
   \<and> HandleKeyInput ''ArrowUp'' ((StartGame initialState)\<lparr>activePiece := Null\<rparr>) =
       Inr ((StartGame initialState)\<lparr>activePiece := Null\<rparr>)"
proof -
  have h: "activePiece ((StartGame initialState)\<lparr>activePiece := Null\<rparr>) = Null"
    by simp
  show ?thesis
    using h C10_no_piece_input_noop [OF h, of True] by simp
qed

text \<open>
  Before the first spawn \<open>_activePiece\<close> is the empty array, not \<open>null\<close>: the guard
  \<open>!_activePiece\<close> does not fire and both inputs throw.
\<close>

lemma input_before_first_spawn:
  "HandleKeyInput ''ArrowLeft'' (StartGame initialState) = Inl TypeError
   \<and> HandleKeyInput ''ArrowUp'' (StartGame initialState) = Inl TypeError"
  by (simp add: HandleKeyInput_def MovePieceSideways_def rotateActive_def StartGame_def
      initialState_def)

section \<open>Piece selection\<close>

lemma pieceIndex_eq_iff:
  "pieceIndex r = k \<longleftrightarrow>
     (2 * real_of_int k - 1) / 12 \<le> r \<and> r < (2 * real_of_int k + 1) / 12"
proof -
  have "pieceIndex r = \<lfloor>r * 6 + 1 / 2\<rfloor>"
    by (simp add: pieceIndex_def Math_round_def pieceTypes_def)
  then show ?thesis
    by (auto simp: floor_eq_iff field_simps)
qed

text \<open>Every draw in [0, 1) selects one of the seven pieces: the generation does not throw.\<close>

lemma GenerateNewPiece_total:
  assumes "0 \<le> r" "r < 1"
  shows "\<exists>p. GenerateNewPiece r = Inr p"
proof -
  have "\<lfloor>r * 6 + 1 / 2\<rfloor> = pieceIndex r"
    by (simp add: pieceIndex_def Math_round_def pieceTypes_def)
  moreover have "0 \<le> \<lfloor>r * 6 + 1 / 2\<rfloor>" "\<lfloor>r * 6 + 1 / 2\<rfloor> < 7"
    using assms by (simp_all add: floor_less_iff)
  ultimately show ?thesis
    by (simp add: GenerateNewPiece_def Let_def pieceTypes_def)
qed

text \<open>
  Claim C9. The draws \<open>r\<close> in [0, 1) that select index 0 (the I piece) are those
  below 1/12, the draws that select index 3 (the O piece) fill [5/12, 7/12), and the
  draws that select index 6 (the Z piece) fill [11/12, 1): the first and the last shape
  get half the measure of a middle one, not 1/7 each.
\<close>

theorem C9_selection_not_uniform:
  "{r. 0 \<le> r \<and> r < 1 \<and> pieceIndex r = 0} = {r. 0 \<le> r \<and> r < 1 / 12}
   \<and> {r. 0 \<le> r \<and> r < 1 \<and> pieceIndex r = 3} = {r. 5 / 12 \<le> r \<and> r < 7 / 12}
   \<and> {r. 0 \<le> r \<and> r < 1 \<and> pieceIndex r = 6} = {r. 11 / 12 \<le> r \<and> r < 1}"
  by (auto simp: pieceIndex_eq_iff)

section \<open>Spawning\<close>

lemma list_ex_not_all: "list_ex P xs = (\<not> list_all (\<lambda>x. \<not> P x) xs)"
  by (induction xs) auto

lemma spawnRowBlocked_iff:
  "spawnRowBlocked cr x0 (y0 + i) row j =
     list_ex (\<lambda>(x, y, b). SquareFixedAt cr x y \<noteq> 0) (map (toBoard x0 y0) (occupiedInRow i row j))"
  by (induction row arbitrary: j) (auto simp: toBoard_def)

lemma spawnBlocked_iff:
  "spawnBlocked cr x0 y0 m i =
     list_ex (\<lambda>(x, y, b). SquareFixedAt cr x y \<noteq> 0) (map (toBoard x0 y0) (occupiedFrom m i))"
  by (induction m arbitrary: i) (auto simp: spawnRowBlocked_iff)

text \<open>The offset \<open>Math.round(_boardWidth/2)-2\<close> is 3.\<close>

lemma spawnPiece_eq:
  "spawnPiece p s =
     (if list_all (\<lambda>(x, y, b). SquareFixedAt (collisionRows s) x y = 0)
           (occupiedCells (p\<lparr>piece_x := piece_x p + 3\<rparr>))
      then (True, s\<lparr>activePiece := Piece (p\<lparr>piece_x := piece_x p + 3\<rparr>), pieceInPlay := True\<rparr>)
      else (False, s))"
proof -
  have off: "Math_round (real_of_int boardWidth / 2) - 2 = 3"
    by (simp add: Math_round_def boardWidth_def)
  have "spawnBlocked (collisionRows s) (piece_x p + 3) (piece_y p) (piece_m p) 0 =
      (\<not> list_all (\<lambda>(x, y, b). SquareFixedAt (collisionRows s) x y = 0)
           (occupiedCells (p\<lparr>piece_x := piece_x p + 3\<rparr>)))"
    by (simp add: spawnBlocked_iff list_ex_not_all occupiedCells_def case_prod_unfold)
  then show ?thesis
    by (simp add: spawnPiece_def off Let_def)
qed

text \<open>
  Claim C6. For every state and every piece \<open>p\<close>, the spawn succeeds exactly when no
  occupied cell of \<open>p\<close>, moved 3 columns to the right, has its bit set in the collision
  index; on success the moved piece is the active piece and \<open>_pieceInPlay\<close> is set, on
  failure the state is unchanged. When \<open>GameLoop\<close> runs without a piece in play and the
  spawn of the generated piece fails, it only sets \<open>_gameInPlay\<close> to false: the board
  is not modified.
\<close>

theorem C6_spawn:
  "spawnPiece p s =
     (if list_all (\<lambda>(x, y, b). SquareFixedAt (collisionRows s) x y = 0)
           (occupiedCells (p\<lparr>piece_x := piece_x p + 3\<rparr>))
      then (True, s\<lparr>activePiece := Piece (p\<lparr>piece_x := piece_x p + 3\<rparr>), pieceInPlay := True\<rparr>)
      else (False, s))
   \<and> (\<not> gamePaused s \<and> \<not> pieceInPlay s \<and> GenerateNewPiece r = Inr p
        \<and> fst (spawnPiece p s) = False
        \<longrightarrow> GameLoop r s = Inr (s\<lparr>gameInPlay := False\<rparr>))"
proof -
  have "GameLoop r s = Inr (s\<lparr>gameInPlay := False\<rparr>)"
    if "\<not> gamePaused s" "\<not> pieceInPlay s" "GenerateNewPiece r = Inr p"
      "fst (spawnPiece p s) = False"
  proof -
    from that(4) have "spawnPiece p s = (False, s)"
      by (simp add: spawnPiece_eq split: if_splits)
    with that(1-3) show ?thesis
      by (simp add: GameLoop_def SpawnNewPiece_def SetGameOver_def)
  qed
  then show ?thesis
    using spawnPiece_eq by blast
qed

lemma iPiece_cells:
  "occupiedCells \<lparr>piece_x = x0, piece_y = y0, piece_m = buildMatrix iPiece\<rparr> =
     [(x0, y0 + 1, Color ''cyan''), (x0 + 1, y0 + 1, Color ''cyan''),
      (x0 + 2, y0 + 1, Color ''cyan''), (x0 + 3, y0 + 1, Color ''cyan'')]"
  by (simp add: occupiedCells_def buildMatrix_def iPiece_def toBoard_def)

theorem C6_spawn_witness:
  "GenerateNewPiece 0 = Inr \<lparr>piece_x = 0, piece_y = 0, piece_m = buildMatrix iPiece\<rparr>
   \<and> spawnPiece \<lparr>piece_x = 0, piece_y = 0, piece_m = buildMatrix iPiece\<rparr>
         ((StartGame initialState)\<lparr>collisionRows := blockedRows\<rparr>) =
       (False, (StartGame initialState)\<lparr>collisionRows := blockedRows\<rparr>)
   \<and> GameLoop 0 ((StartGame initialState)\<lparr>collisionRows := blockedRows\<rparr>) =
       Inr ((StartGame initialState)\<lparr>collisionRows := blockedRows, gameInPlay := False\<rparr>)"
proof -
  let ?p = "\<lparr>piece_x = 0, piece_y = 0, piece_m = buildMatrix iPiece\<rparr>"
  let ?s = "(StartGame initialState)\<lparr>collisionRows := blockedRows\<rparr>"
  have gen: "GenerateNewPiece 0 = Inr ?p"
    by (simp add: GenerateNewPiece_def pieceIndex_def Math_round_def pieceTypes_def)
  have bit: "SquareFixedAt blockedRows 3 1 \<noteq> 0"
    by (simp add: blockedRows_def fix_then_fixed shl1_nonzero)
  have flags: "\<not> gamePaused ?s" "\<not> pieceInPlay ?s"
    by (simp_all add: StartGame_def initialState_def)
  from C6_spawn [of ?p ?s 0] bit have sp: "spawnPiece ?p ?s = (False, ?s)"
    by (simp add: iPiece_cells)
  with C6_spawn [of ?p ?s 0] gen flags show ?thesis
    by simp
qed

section \<open>Gravity\<close>

subsection \<open>The collision check\<close>

lemma gravityRow_iff:
  "gravityRow cr x0 (y0 + i) row j mv =
     (mv \<and> list_all (\<lambda>(x, y, b). y + 1 < boardHeight \<and> SquareFixedAt cr x (y + 1) = 0)
            (map (toBoard x0 y0) (occupiedInRow i row j)))"
  by (induction row arbitrary: j) (auto simp: toBoard_def)

lemma gravityRows_iff:
  "gravityRows cr x0 y0 m i mv =
     (mv \<and> list_all (\<lambda>(x, y, b). y + 1 < boardHeight \<and> SquareFixedAt cr x (y + 1) = 0)
            (map (toBoard x0 y0) (occupiedFrom m i)))"
  by (induction m arbitrary: i mv) (auto simp: gravityRow_iff)

lemma occupiedInRow_rows: "(i', j', b) \<in> set (occupiedInRow i row j) \<Longrightarrow> i' = i"
  by (induction row arbitrary: j) (auto split: if_splits)

lemma occupiedFrom_rows: "(i', j', b) \<in> set (occupiedFrom m i) \<Longrightarrow> i \<le> i'"
  by (induction m arbitrary: i) (fastforce dest: occupiedInRow_rows)+

lemma occupiedCells_below: "(x, y, b) \<in> set (occupiedCells p) \<Longrightarrow> piece_y p \<le> y"
  by (auto simp: occupiedCells_def toBoard_def dest: occupiedFrom_rows)

subsection \<open>The landing\<close>

lemma landCells_append: "landCells (xs @ ys) s = landCells ys (landCells xs s)"
  by (induction xs arbitrary: s) simp_all

lemma landRow_eq:
  "landRow x0 (y0 + i) row j s = landCells (map (toBoard x0 y0) (occupiedInRow i row j)) s"
  by (induction row arbitrary: j s) (simp_all add: toBoard_def fixCell_def mkSquare_def)

lemma landRows_eq:
  "landRows x0 y0 m i s = landCells (map (toBoard x0 y0) (occupiedFrom m i)) s"
  by (induction m arbitrary: i s) (simp_all add: landCells_append landRow_eq)

lemma landCells_store: "store (landCells cells s) = store s @ map mkSquare cells"
  by (induction cells arbitrary: s) simp_all

lemma landCells_rows: "collisionRows (landCells cells s) = fold fixCell cells (collisionRows s)"
  by (induction cells arbitrary: s) simp_all

lemma upt_add_Suc: "[n ..< n + Suc k] = n # [Suc n ..< Suc n + k]"
  by (simp add: upt_conv_Cons del: upt_Suc)

lemma landCells_placed:
  "placedSquares (landCells cells s) =
     placedSquares s @ [length (store s) ..< length (store s) + length cells]"
proof (induction cells arbitrary: s)
  case Nil
  then show ?case by simp
next
  case (Cons c cells)
  show ?case
    using upt_add_Suc [of "length (store s)" "length cells"] by (simp add: Cons del: upt_Suc)
qed

lemma landCells_frame:
  "fallingSquares (landCells cells s) = fallingSquares s"
  "activePiece (landCells cells s) = activePiece s"
  "pieceInPlay (landCells cells s) = pieceInPlay s"
  "gameInPlay (landCells cells s) = gameInPlay s"
  "gamePaused (landCells cells s) = gamePaused s"
  "intervalActive (landCells cells s) = intervalActive s"
  by (induction cells arbitrary: s) simp_all

lemma fixCell_simp: "fixCell (x, y, b) cr = FixSquareAt cr x y"
  by (simp add: fixCell_def)

lemma fold_fixCell_keeps:
  "SquareFixedAt cr x y \<noteq> 0 \<Longrightarrow> SquareFixedAt (fold fixCell cells cr) x y \<noteq> 0"
proof (induction cells arbitrary: cr)
  case Nil
  then show ?case by simp
next
  case (Cons c cells)
  obtain x' y' b' where c: "c = (x', y', b')"
    by (cases c) auto
  have "SquareFixedAt (FixSquareAt cr x' y') x y \<noteq> 0"
    using Cons.prems by (rule fix_keeps_bits)
  then have "SquareFixedAt (fold fixCell cells (FixSquareAt cr x' y')) x y \<noteq> 0"
    by (rule Cons.IH)
  then show ?case
    by (simp add: c fixCell_simp)
qed

lemma fold_fixCell_sets:
  "(x, y, b) \<in> set cells \<Longrightarrow> SquareFixedAt (fold fixCell cells cr) x y \<noteq> 0"
proof (induction cells arbitrary: cr)
  case Nil
  then show ?case by simp
next
  case (Cons c cells)
  show ?case
  proof (cases "c = (x, y, b)")
    case True
    have "SquareFixedAt (FixSquareAt cr x y) x y \<noteq> 0"
      by (simp add: fix_then_fixed shl1_nonzero)
    then have "SquareFixedAt (fold fixCell cells (FixSquareAt cr x y)) x y \<noteq> 0"
      by (rule fold_fixCell_keeps)
    then show ?thesis
      by (simp add: True fixCell_simp)
  next
    case False
    with Cons.prems have "(x, y, b) \<in> set cells"
      by simp
    then have "SquareFixedAt (fold fixCell cells (fixCell c cr)) x y \<noteq> 0"
      by (rule Cons.IH)
    then show ?thesis
      by simp
  qed
qed

subsection \<open>The pass over the falling squares\<close>

lemma fallLoop_frame:
  "placedSquares (fst (fallLoop bs s acc)) = placedSquares s
   \<and> activePiece (fst (fallLoop bs s acc)) = activePiece s
   \<and> pieceInPlay (fst (fallLoop bs s acc)) = pieceInPlay s
   \<and> length (store (fst (fallLoop bs s acc))) = length (store s)"
  by (induction bs arbitrary: s acc) (simp_all add: Let_def)

lemma fallLoop_store_other:
  "a \<notin> set bs \<Longrightarrow> store (fst (fallLoop bs s acc)) ! a = store s ! a"
  by (induction bs arbitrary: s acc) (simp_all add: Let_def)

lemma fallLoop_keeps_bits:
  "SquareFixedAt (collisionRows s) x y \<noteq> 0 \<Longrightarrow>
     SquareFixedAt (collisionRows (fst (fallLoop bs s acc))) x y \<noteq> 0"
  by (induction bs arbitrary: s acc) (simp_all add: Let_def fix_keeps_bits)

lemma fallSquares_eq:
  "fallSquares s =
     (fst (fallLoop (fallingSquares s) s []))
       \<lparr>fallingSquares := snd (fallLoop (fallingSquares s) s [])\<rparr>"
  by (simp add: fallSquares_def case_prod_unfold Let_def)

subsection \<open>One gravity step\<close>

lemma gravityPiece_land:
  "gravityPiece p s =
     (if list_all (\<lambda>(x, y, b). y + 1 < boardHeight \<and> SquareFixedAt (collisionRows s) x (y + 1) = 0)
           (occupiedCells p)
      then s\<lparr>activePiece := Piece (p\<lparr>piece_y := piece_y p + 1\<rparr>)\<rparr>
      else (landCells (occupiedCells p) s)\<lparr>activePiece := Null, pieceInPlay := False\<rparr>)"
  by (simp add: gravityPiece_def gravityRows_iff landRows_eq occupiedCells_def)

text \<open>
  Claim C4. In a state with an active piece \<open>p\<close> (at \<open>piece.y \<ge> 0\<close>, where every
  piece is, and with the references of \<open>_fallingSquares\<close> pointing to existing square
  objects), \<open>ProcessGravity\<close> returns, and: when for every occupied cell \<open>(x, y)\<close> the
  row \<open>y + 1\<close> is within the board and \<open>(x, y + 1)\<close> is not fixed, the active piece
  is \<open>p\<close> with \<open>y\<close> incremented by 1; otherwise \<open>_activePiece\<close> is \<open>null\<close>,
  \<open>_pieceInPlay\<close> is false, and for every occupied cell its collision bit is set and
  \<open>_placedSquares\<close> holds a square with the cell's coordinates and colour.
\<close>

theorem C4_gravity_step:
  assumes act: "activePiece s = Piece p"
    and top: "0 \<le> piece_y p"
    and refs: "list_all (\<lambda>a. a < length (store s)) (fallingSquares s)"
  shows "\<exists>s'. ProcessGravity s = Inr s' \<and>
     (if list_all (\<lambda>(x, y, b). 0 \<le> y + 1 \<and> y + 1 < boardHeight
                      \<and> SquareFixedAt (collisionRows s) x (y + 1) = 0) (occupiedCells p)
      then activePiece s' = Piece (p\<lparr>piece_y := piece_y p + 1\<rparr>)
      else activePiece s' = Null \<and> pieceInPlay s' = False
         \<and> list_all (\<lambda>(x, y, b). SquareFixedAt (collisionRows s') x y \<noteq> 0
              \<and> list_ex (\<lambda>a. store s' ! a = \<lparr>sq_x = x, sq_y = y, sq_color = b\<rparr>)
                   (placedSquares s'))
             (occupiedCells p))"
proof -
  let ?cells = "occupiedCells p"
  let ?free = "list_all (\<lambda>(x, y, b). y + 1 < boardHeight
                      \<and> SquareFixedAt (collisionRows s) x (y + 1) = 0) ?cells"
  let ?g = "gravityPiece p s"
  let ?s' = "fallSquares ?g"
  have cond: "list_all (\<lambda>(x, y, b). 0 \<le> y + 1 \<and> y + 1 < boardHeight
                      \<and> SquareFixedAt (collisionRows s) x (y + 1) = 0) ?cells = ?free"
    using top by (auto simp: list_all_iff dest: occupiedCells_below)
  have run: "ProcessGravity s = Inr ?s'"
    by (simp add: ProcessGravity_def act)
  have frame: "activePiece ?s' = activePiece ?g" "pieceInPlay ?s' = pieceInPlay ?g"
    "placedSquares ?s' = placedSquares ?g"
    by (simp_all add: fallSquares_eq fallLoop_frame)
  show ?thesis
  proof (cases ?free)
    case True
    then have "activePiece ?s' = Piece (p\<lparr>piece_y := piece_y p + 1\<rparr>)"
      using frame(1) by (simp add: gravityPiece_land)
    with run cond True show ?thesis
      by simp
  next
    case False
    then have g: "?g = (landCells ?cells s)\<lparr>activePiece := Null, pieceInPlay := False\<rparr>"
      by (simp add: gravityPiece_land)
    have flags: "activePiece ?s' = Null" "pieceInPlay ?s' = False"
      using frame by (simp_all add: g)
    have each: "SquareFixedAt (collisionRows ?s') x y \<noteq> 0
        \<and> list_ex (\<lambda>a. store ?s' ! a = \<lparr>sq_x = x, sq_y = y, sq_color = b\<rparr>) (placedSquares ?s')"
      if c: "(x, y, b) \<in> set ?cells" for x y b
    proof -
      have "SquareFixedAt (collisionRows ?g) x y \<noteq> 0"
        using c by (simp add: g landCells_rows fold_fixCell_sets)
      then have bit: "SquareFixedAt (collisionRows ?s') x y \<noteq> 0"
        by (simp add: fallSquares_eq fallLoop_keeps_bits)
      from c obtain k where k: "k < length ?cells" "?cells ! k = (x, y, b)"
        by (auto simp: in_set_conv_nth)
      let ?a = "length (store s) + k"
      have fresh: "?a \<notin> set (fallingSquares ?g)"
        using refs by (auto simp: g landCells_frame list_all_iff)
      have "store ?g ! ?a = mkSquare (?cells ! k)"
        using k by (simp add: g landCells_store)
      then have sq: "store ?s' ! ?a = \<lparr>sq_x = x, sq_y = y, sq_color = b\<rparr>"
        using fresh k by (simp add: fallSquares_eq fallLoop_store_other mkSquare_def)
      have "?a \<in> set (placedSquares ?s')"
        using k frame(3) by (simp add: g landCells_placed)
      with sq have "list_ex (\<lambda>a. store ?s' ! a = \<lparr>sq_x = x, sq_y = y, sq_color = b\<rparr>)
          (placedSquares ?s')"
        by (auto simp: list_ex_iff)
      with bit show ?thesis
        by simp
    qed
    then have "list_all (\<lambda>(x, y, b). SquareFixedAt (collisionRows ?s') x y \<noteq> 0
              \<and> list_ex (\<lambda>a. store ?s' ! a = \<lparr>sq_x = x, sq_y = y, sq_color = b\<rparr>)
                   (placedSquares ?s'))
             ?cells"
      by (auto simp: list_all_iff)
    with run cond False flags show ?thesis
      by simp
  qed
qed

theorem C4_gravity_step_witness:
  "(\<exists>s'. ProcessGravity fallingState = Inr s'
        \<and> activePiece s' = Piece \<lparr>piece_x = 3, piece_y = 1, piece_m = buildMatrix iPiece\<rparr>)
   \<and> (\<exists>s'. ProcessGravity landingState = Inr s' \<and> activePiece s' = Null \<and> pieceInPlay s' = False
        \<and> SquareFixedAt (collisionRows s') 3 21 \<noteq> 0
        \<and> list_ex (\<lambda>a. store s' ! a = \<lparr>sq_x = 3, sq_y = 21, sq_color = Color ''cyan''\<rparr>)
             (placedSquares s'))"
proof -
  let ?pf = "\<lparr>piece_x = 3, piece_y = 0, piece_m = buildMatrix iPiece\<rparr>"
  let ?pl = "\<lparr>piece_x = 3, piece_y = 20, piece_m = buildMatrix iPiece\<rparr>"
  have f: "activePiece fallingState = Piece ?pf" "0 \<le> piece_y ?pf"
    "list_all (\<lambda>a. a < length (store fallingState)) (fallingSquares fallingState)"
    by (simp_all add: fallingState_def StartGame_def initialState_def)
  have l: "activePiece landingState = Piece ?pl" "0 \<le> piece_y ?pl"
    "list_all (\<lambda>a. a < length (store landingState)) (fallingSquares landingState)"
    by (simp_all add: landingState_def StartGame_def initialState_def)
  have rows: "collisionRows fallingState = collisionRows (StartGame initialState)"
    by (simp add: fallingState_def)
  have first: "\<exists>s'. ProcessGravity fallingState = Inr s'
        \<and> activePiece s' = Piece \<lparr>piece_x = 3, piece_y = 1, piece_m = buildMatrix iPiece\<rparr>"
    using C4_gravity_step [OF f]
    by (simp add: iPiece_cells rows StartGame_free boardHeight_def)
  have second: "\<exists>s'. ProcessGravity landingState = Inr s' \<and> activePiece s' = Null
        \<and> pieceInPlay s' = False
        \<and> SquareFixedAt (collisionRows s') 3 21 \<noteq> 0
        \<and> list_ex (\<lambda>a. store s' ! a = \<lparr>sq_x = 3, sq_y = 21, sq_color = Color ''cyan''\<rparr>)
             (placedSquares s')"
    using C4_gravity_step [OF l]
    by (auto simp: iPiece_cells boardHeight_def)
  from first second show ?thesis
    by blast
qed

section \<open>Sideways moves\<close>

lemma sidewaysRow_iff:
  "sidewaysRow cr ml x0 (y0 + i) row j =
     list_ex (\<lambda>(x, y, b). ml \<and> x = 0 \<or> SquareFixedAt cr (x - 1) y \<noteq> 0
                \<or> \<not> ml \<and> x = boardWidth - 1 \<or> SquareFixedAt cr (x + 1) y \<noteq> 0)
       (map (toBoard x0 y0) (occupiedInRow i row j))"
  by (induction row arbitrary: j) (auto simp: toBoard_def)

lemma sidewaysRows_iff:
  "sidewaysRows cr ml x0 y0 m i =
     list_ex (\<lambda>(x, y, b). ml \<and> x = 0 \<or> SquareFixedAt cr (x - 1) y \<noteq> 0
                \<or> \<not> ml \<and> x = boardWidth - 1 \<or> SquareFixedAt cr (x + 1) y \<noteq> 0)
       (map (toBoard x0 y0) (occupiedFrom m i))"
  by (induction m arbitrary: i) (auto simp: sidewaysRow_iff)

text \<open>
  What \<open>MovePieceSideways\<close> does with an active piece: the move is aborted when some
  occupied cell is at the wall of the direction of the move, or has a fixed square to its
  left, or has a fixed square to its right, whatever the direction; otherwise the whole
  piece moves by one column.
\<close>

lemma MovePieceSideways_piece:
  assumes "activePiece s = Piece p"
  shows "MovePieceSideways ml s =
     Inr (if list_ex (\<lambda>(x, y, b). ml \<and> x = 0 \<or> SquareFixedAt (collisionRows s) (x - 1) y \<noteq> 0
                \<or> \<not> ml \<and> x = boardWidth - 1 \<or> SquareFixedAt (collisionRows s) (x + 1) y \<noteq> 0)
              (occupiedCells p)
          then s
          else s\<lparr>activePiece := Piece (p\<lparr>piece_x := piece_x p + (if ml then - 1 else 1)\<rparr>)\<rparr>)"
  using assms by (simp add: MovePieceSideways_def sidewaysRows_iff occupiedCells_def)

text \<open>
  Claim C5. The game \<open>besideGame\<close>, played from the start, reaches a state in which
  an O piece lies in columns 0 and 1 of rows 20 and 21 and the active O piece occupies
  (2, 19), (3, 19), (2, 20) and (3, 20). The cells to the right of them, (3, 19),
  (4, 19), (3, 20) and (4, 20), are on the board and not fixed; the square left of
  (2, 20) is fixed. The key \<open>ArrowRight\<close> leaves the piece where it is.
\<close>

theorem C5_blocked_by_opposite_side:
  "(case run besideGame (StartGame initialState) of
      Inl e \<Rightarrow> False
    | Inr s \<Rightarrow>
        activePiece s = Piece \<lparr>piece_x = 1, piece_y = 18, piece_m = buildMatrix oPiece\<rparr>
        \<and> occupiedCells \<lparr>piece_x = 1, piece_y = 18, piece_m = buildMatrix oPiece\<rparr> =
            [(2, 19, Color ''yellow''), (3, 19, Color ''yellow''),
             (2, 20, Color ''yellow''), (3, 20, Color ''yellow'')]
        \<and> boardView s = ([(0, 20), (1, 20), (0, 21), (1, 21)], [], [0, 3, 3])
        \<and> map (\<lambda>(x, y). SquareFixedAt (collisionRows s) x y)
            [(3, 19), (4, 19), (3, 20), (4, 20)] = [0, 0, 0, 0]
        \<and> SquareFixedAt (collisionRows s) 1 20 = 2
        \<and> (case step (KeyDown ''ArrowRight'') s of
              Inl e \<Rightarrow> False
            | Inr s' \<Rightarrow> activePiece s' =
                Piece \<lparr>piece_x = 1, piece_y = 18, piece_m = buildMatrix oPiece\<rparr>))"
  by code_simp

section \<open>Row clearing\<close>

subsection \<open>Removing one row\<close>

lemma removeLoop_frame:
  "store (fst (removeLoop y bs s acc)) = store s
   \<and> activePiece (fst (removeLoop y bs s acc)) = activePiece s
   \<and> placedSquares (fst (removeLoop y bs s acc)) = placedSquares s"
  by (induction bs arbitrary: s acc) (simp_all add: Let_def)

lemma removeLoop_newBoard:
  "snd (removeLoop y bs s acc) = acc @ filter (\<lambda>b. rowOf s b \<noteq> y) bs"
  by (induction bs arbitrary: s acc) (simp_all add: Let_def rowOf_def)

lemma removeLoop_falling:
  "fallingSquares (fst (removeLoop y bs s acc)) =
     fallingSquares s @ filter (\<lambda>b. rowOf s b \<noteq> y) bs"
  by (induction bs arbitrary: s acc) (simp_all add: Let_def rowOf_def)

lemma removeLoop_row: "collisionRows (fst (removeLoop y bs s acc)) y = collisionRows s y"
  by (induction bs arbitrary: s acc) (simp_all add: Let_def UnfixSquareAt_def)

lemma removeLoop_zero:
  "collisionRows s r = Some 0 \<Longrightarrow> collisionRows (fst (removeLoop y bs s acc)) r = Some 0"
proof (induction bs arbitrary: s acc)
  case Nil
  then show ?case by simp
next
  case (Cons b bs)
  let ?sq = "store s ! b"
  let ?s = "s\<lparr>collisionRows := UnfixSquareAt (collisionRows s) (sq_x ?sq) (sq_y ?sq),
               fallingSquares := fallingSquares s @ [b]\<rparr>"
  have "collisionRows ?s r = Some 0"
    using Cons.prems by (auto simp: UnfixSquareAt_def toInt32_def)
  then have "collisionRows (fst (removeLoop y bs ?s (acc @ [b]))) r = Some 0"
    by (rule Cons.IH)
  with Cons.IH [OF Cons.prems] show ?case
    by (simp add: Let_def)
qed

lemma RemoveRow_eq:
  "RemoveRow y s =
     (fst (removeLoop y (placedSquares s) (s\<lparr>collisionRows := (collisionRows s)(y \<mapsto> 0)\<rparr>) []))
       \<lparr>placedSquares := snd (removeLoop y (placedSquares s)
                               (s\<lparr>collisionRows := (collisionRows s)(y \<mapsto> 0)\<rparr>) [])\<rparr>"
  by (simp add: RemoveRow_def Let_def case_prod_unfold)

lemma RemoveRow_active: "activePiece (RemoveRow y s) = activePiece s"
  by (simp add: RemoveRow_eq removeLoop_frame)

lemma RemoveRow_store: "store (RemoveRow y s) = store s"
  by (simp add: RemoveRow_eq removeLoop_frame)

lemma RemoveRow_placed:
  "placedSquares (RemoveRow y s) = filter (\<lambda>b. rowOf s b \<noteq> y) (placedSquares s)"
  by (simp add: RemoveRow_eq removeLoop_newBoard rowOf_def)

lemma RemoveRow_row: "collisionRows (RemoveRow y s) y = Some 0"
  by (simp add: RemoveRow_eq removeLoop_row)

lemma RemoveRow_zero:
  "collisionRows s r = Some 0 \<Longrightarrow> collisionRows (RemoveRow y s) r = Some 0"
  by (simp add: RemoveRow_eq removeLoop_zero)

text \<open>
  Claim C3, as stated, fails on \<open>belowState\<close>: row 20 is full and the squares 10 and
  11 are in row 21, below it, with the bits 0 and 1 of row 21 set and nothing falling.
  After \<open>RemoveRow(20)\<close> both squares are in \<open>_fallingSquares\<close> and the mask of row
  21 is 0.
\<close>

theorem C3_below_row_released:
  "map (rowOf belowState) (placedSquares belowState) =
     [20, 20, 20, 20, 20, 20, 20, 20, 20, 20, 21, 21]
   \<and> toInt32 (collisionRows belowState 21) = 3
   \<and> fallingSquares belowState = []
   \<and> fallingSquares (RemoveRow 20 belowState) = [10, 11]
   \<and> toInt32 (collisionRows (RemoveRow 20 belowState) 21) = 0"
  by code_simp

text \<open>
  Claim C3, amended. For every state and every row index \<open>y\<close>, \<open>RemoveRow(y)\<close>
  removes every square of row \<open>y\<close> from \<open>_placedSquares\<close> and keeps the others in
  their order, sets the collision mask of row \<open>y\<close> to 0, and appends every remaining
  placed square, above or below row \<open>y\<close>, to \<open>_fallingSquares\<close>; no square object is
  changed.
\<close>

theorem C3_release_row:
  "placedSquares (RemoveRow y s) = filter (\<lambda>b. rowOf s b \<noteq> y) (placedSquares s)
   \<and> fallingSquares (RemoveRow y s) =
       fallingSquares s @ filter (\<lambda>b. rowOf s b \<noteq> y) (placedSquares s)
   \<and> collisionRows (RemoveRow y s) y = Some 0
   \<and> store (RemoveRow y s) = store s"
  by (simp add: RemoveRow_eq removeLoop_newBoard removeLoop_falling removeLoop_row
      removeLoop_frame rowOf_def)

subsection \<open>The scan\<close>

lemma Draw_ok: "activePiece s \<noteq> EmptyArray \<Longrightarrow> Draw s = None"
  by (cases "activePiece s") (simp_all add: Draw_def)

text \<open>A released row stays released for the rest of the scan, and the scan returns.\<close>

lemma released_RemoveRow: "released i s \<Longrightarrow> released i (RemoveRow k s)"
  by (simp add: released_def RemoveRow_zero RemoveRow_placed RemoveRow_active rowOf_def
      RemoveRow_store list_all_iff)

lemma released_after: "activePiece s \<noteq> EmptyArray \<Longrightarrow> released i (RemoveRow i s)"
  by (simp add: released_def RemoveRow_row RemoveRow_placed RemoveRow_active rowOf_def
      RemoveRow_store list_all_iff)

lemma checkRows_released: "released i s \<Longrightarrow> \<exists>s'. checkRows ks s = Inr s' \<and> released i s'"
proof (induction ks arbitrary: s)
  case Nil
  then show ?case by simp
next
  case (Cons k ks)
  show ?case
  proof (cases "collisionRows s k = Some fullRowVal")
    case True
    have r: "released i (RemoveRow k s)"
      using Cons.prems by (rule released_RemoveRow)
    then have "Draw (RemoveRow k s) = None"
      by (simp add: released_def Draw_ok)
    with True Cons.IH [OF r] show ?thesis
      by (simp add: Let_def)
  next
    case False
    with Cons.IH [OF Cons.prems] show ?thesis
      by simp
  qed
qed

lemma checkRows_append:
  "checkRows (ks @ ls) s = (case checkRows ks s of Inl e \<Rightarrow> Inl e | Inr t \<Rightarrow> checkRows ls t)"
  by (induction ks arbitrary: s) (simp_all add: Let_def split: option.splits)

lemma checkRows_active: "checkRows ks s = Inr t \<Longrightarrow> activePiece t = activePiece s"
proof (induction ks arbitrary: s)
  case Nil
  then show ?case by simp
next
  case (Cons k ks)
  then show ?case
    by (auto simp: Let_def RemoveRow_active split: if_splits option.splits)
qed

lemma checkRows_none_full:
  "list_all (\<lambda>k. collisionRows s k \<noteq> Some fullRowVal) ks \<Longrightarrow> checkRows ks s = Inr s"
  by (induction ks) simp_all

text \<open>The scan returns in every state in which \<open>Draw\<close> does not throw.\<close>

lemma checkRows_returns: "activePiece s \<noteq> EmptyArray \<Longrightarrow> \<exists>t. checkRows ks s = Inr t"
proof (induction ks arbitrary: s)
  case Nil
  then show ?case by simp
next
  case (Cons k ks)
  have "activePiece (RemoveRow k s) \<noteq> EmptyArray"
    using Cons.prems by (simp add: RemoveRow_active)
  with Cons.IH [of "RemoveRow k s"] Cons.IH [OF Cons.prems] show ?case
    by (simp add: Let_def Draw_ok)
qed

lemma scan_clears_row_full_when_reached:
  assumes act: "activePiece s \<noteq> EmptyArray"
    and range: "0 \<le> i" "i < boardHeight"
    and reach: "checkRows [0..i - 1] s = Inr t"
    and full: "collisionRows t i = Some fullRowVal"
  shows "\<exists>s'. CheckForRowsCleared s = Inr s' \<and> released i s'"
proof -
  have split: "[0..boardHeight - 1] = [0..i - 1] @ i # [i + 1..boardHeight - 1]"
    using range by (simp add: upto_split3)
  have t: "activePiece t \<noteq> EmptyArray"
    using checkRows_active [OF reach] act by simp
  then have rel: "released i (RemoveRow i t)"
    by (rule released_after)
  then have "Draw (RemoveRow i t) = None"
    by (simp add: released_def Draw_ok)
  with full have "checkRows (i # [i + 1..boardHeight - 1]) t =
      checkRows [i + 1..boardHeight - 1] (RemoveRow i t)"
    by (simp add: Let_def)
  with reach have "CheckForRowsCleared s = checkRows [i + 1..boardHeight - 1] (RemoveRow i t)"
    by (simp add: CheckForRowsCleared_def split checkRows_append)
  with checkRows_released [OF rel, of "[i + 1..boardHeight - 1]"] show ?thesis
    by simp
qed

text \<open>The first row that is full when the scan begins is cleared by the pass.\<close>

lemma scan_clears_first_full_row:
  assumes "activePiece s \<noteq> EmptyArray" "0 \<le> i" "i < boardHeight"
    and "list_all (\<lambda>k. collisionRows s k \<noteq> Some fullRowVal) [0..i - 1]"
    and "collisionRows s i = Some fullRowVal"
  shows "\<exists>s'. CheckForRowsCleared s = Inr s' \<and> released i s'"
  using assms checkRows_none_full [of s "[0..i - 1]"]
  by (intro scan_clears_row_full_when_reached [where t = s]) simp_all

text \<open>
  Claim C7, as stated, fails on \<open>twoFullState\<close>: the rows 20 and 21 are both full when
  the scan begins. The scan removes row 20, which unfixes the squares of row 21 and
  hands them to \<open>_fallingSquares\<close>; row 21 is not full any more when the scan
  reaches it, and its ten squares are still in \<open>_placedSquares\<close> when
  \<open>CheckForRowsCleared\<close> returns.
\<close>

theorem C7_second_full_row_kept:
  "collisionRows twoFullState 20 = Some fullRowVal
   \<and> collisionRows twoFullState 21 = Some fullRowVal
   \<and> (case CheckForRowsCleared twoFullState of
         Inl e \<Rightarrow> False
       | Inr s' \<Rightarrow> placedSquares s' = [10, 11, 12, 13, 14, 15, 16, 17, 18, 19]
           \<and> map (rowOf s') (placedSquares s') = [21, 21, 21, 21, 21, 21, 21, 21, 21, 21]
           \<and> boardView s' =
               ([(0, 21), (1, 21), (2, 21), (3, 21), (4, 21), (5, 21), (6, 21), (7, 21),
                 (8, 21), (9, 21)],
                [10, 11, 12, 13, 14, 15, 16, 17, 18, 19], [0, 0, 0]))"
  by code_simp

text \<open>
  A removal of another row, and so a scan that does not visit row \<open>i\<close>, leaves the
  placed squares of row \<open>i\<close> in \<open>_placedSquares\<close>.
\<close>

lemma RemoveRow_other_row:
  "k \<noteq> i \<Longrightarrow>
     filter (\<lambda>b. rowOf (RemoveRow k s) b = i) (placedSquares (RemoveRow k s)) =
     filter (\<lambda>b. rowOf s b = i) (placedSquares s)"
  by (auto simp: rowOf_def RemoveRow_store RemoveRow_placed intro: filter_cong)

lemma checkRows_keeps_row:
  "i \<notin> set ks \<Longrightarrow> checkRows ks s = Inr t \<Longrightarrow>
     filter (\<lambda>b. rowOf t b = i) (placedSquares t) = filter (\<lambda>b. rowOf s b = i) (placedSquares s)"
proof (induction ks arbitrary: s)
  case Nil
  then show ?case by simp
next
  case (Cons k ks)
  show ?case
  proof (cases "collisionRows s k = Some fullRowVal")
    case True
    with Cons.prems have rest: "checkRows ks (RemoveRow k s) = Inr t"
      by (simp add: Let_def split: option.splits)
    from Cons.prems have "k \<noteq> i" "i \<notin> set ks"
      by auto
    with Cons.IH [OF _ rest] RemoveRow_other_row [of k i s] show ?thesis
      by simp
  next
    case False
    with Cons.prems Cons.IH [of s] show ?thesis
      by simp
  qed
qed

text \<open>
  Claim C7, amended. For every state in which \<open>Draw\<close> does not throw and every row
  \<open>i\<close> of the board, one pass of \<open>CheckForRowsCleared\<close> returns, and with \<open>t\<close>
  the state in which the scan reaches row \<open>i\<close> (the state the rows before \<open>i\<close>
  leave): when the mask of row \<open>i\<close> equals \<open>_fullRowVal\<close> in \<open>t\<close>, the pass ends
  with the mask of row \<open>i\<close> equal to 0 and no square of row \<open>i\<close> in
  \<open>_placedSquares\<close>; when it does not, the squares of row \<open>i\<close> in
  \<open>_placedSquares\<close> are the same after the pass as before it. The first case covers
  the first row that is full when the scan begins.
\<close>

theorem C7_row_full_when_reached:
  assumes act: "activePiece s \<noteq> EmptyArray"
    and range: "0 \<le> i" "i < boardHeight"
    and reach: "checkRows [0..i - 1] s = Inr t"
  shows "\<exists>s'. CheckForRowsCleared s = Inr s' \<and>
     (if collisionRows t i = Some fullRowVal
      then collisionRows s' i = Some 0 \<and> list_all (\<lambda>b. rowOf s' b \<noteq> i) (placedSquares s')
      else filter (\<lambda>b. rowOf s' b = i) (placedSquares s') =
           filter (\<lambda>b. rowOf s b = i) (placedSquares s))"
proof (cases "collisionRows t i = Some fullRowVal")
  case True
  with scan_clears_row_full_when_reached [OF act range reach] show ?thesis
    by (auto simp: released_def)
next
  case False
  have split: "[0..boardHeight - 1] = [0..i - 1] @ i # [i + 1..boardHeight - 1]"
    using range by (simp add: upto_split3)
  have "activePiece t \<noteq> EmptyArray"
    using checkRows_active [OF reach] act by simp
  then obtain s' where rest: "checkRows [i + 1..boardHeight - 1] t = Inr s'"
    using checkRows_returns by blast
  with False reach have whole: "CheckForRowsCleared s = Inr s'"
    by (simp add: CheckForRowsCleared_def split checkRows_append)
  have "filter (\<lambda>b. rowOf s' b = i) (placedSquares s') =
      filter (\<lambda>b. rowOf t b = i) (placedSquares t)"
    using rest by (intro checkRows_keeps_row) simp_all
  also have "\<dots> = filter (\<lambda>b. rowOf s b = i) (placedSquares s)"
    using reach by (intro checkRows_keeps_row) simp_all
  finally show ?thesis
    using whole False by simp
qed

theorem C7_row_full_when_reached_witness:
  "(\<exists>s'. CheckForRowsCleared twoFullState = Inr s' \<and> collisionRows s' 20 = Some 0
           \<and> list_all (\<lambda>b. rowOf s' b \<noteq> 20) (placedSquares s'))
   \<and> collisionRows (RemoveRow 20 twoFullState) 21 \<noteq> Some fullRowVal
   \<and> (\<exists>s'. CheckForRowsCleared twoFullState = Inr s'
           \<and> filter (\<lambda>b. rowOf s' b = 21) (placedSquares s') =
               [10, 11, 12, 13, 14, 15, 16, 17, 18, 19])"
proof -
  have act: "activePiece twoFullState \<noteq> EmptyArray"
    by (simp add: twoFullState_def)
  have r20: "(0::int) \<le> 20" "20 < boardHeight" and r21: "(0::int) \<le> 21" "21 < boardHeight"
    by (simp_all add: boardHeight_def)
  have "list_all (\<lambda>k. collisionRows twoFullState k \<noteq> Some fullRowVal) [0..20 - 1]"
    by code_simp
  then have reach20: "checkRows [0..20 - 1] twoFullState = Inr twoFullState"
    by (rule checkRows_none_full)
  have full20: "collisionRows twoFullState 20 = Some fullRowVal"
    by code_simp
  have "Draw (RemoveRow 20 twoFullState) = None"
    using act by (simp add: Draw_ok RemoveRow_active)
  with full20 have "checkRows [20] twoFullState = Inr (RemoveRow 20 twoFullState)"
    by (simp add: Let_def)
  moreover have "[0..21 - 1] = [0..20 - 1] @ [20::int]"
    by (simp add: upto_rec2)
  ultimately have reach21: "checkRows [0..21 - 1] twoFullState = Inr (RemoveRow 20 twoFullState)"
    using reach20 by (simp only: checkRows_append) simp
  have notfull21: "collisionRows (RemoveRow 20 twoFullState) 21 \<noteq> Some fullRowVal"
    by code_simp
  have row21: "filter (\<lambda>b. rowOf twoFullState b = 21) (placedSquares twoFullState) =
      [10, 11, 12, 13, 14, 15, 16, 17, 18, 19]"
    by code_simp
  have first: "\<exists>s'. CheckForRowsCleared twoFullState = Inr s' \<and> collisionRows s' 20 = Some 0
           \<and> list_all (\<lambda>b. rowOf s' b \<noteq> 20) (placedSquares s')"
    using C7_row_full_when_reached [OF act r20 reach20] full20 by simp
  have second: "\<exists>s'. CheckForRowsCleared twoFullState = Inr s'
           \<and> filter (\<lambda>b. rowOf s' b = 21) (placedSquares s') =
               [10, 11, 12, 13, 14, 15, 16, 17, 18, 19]"
    using C7_row_full_when_reached [OF act r21 reach21] notfull21 row21 by simp
  from first notfull21 second show ?thesis
    by blast
qed

section \<open>Consistency of the collision index with the placed squares\<close>

text \<open>
  Claim C1. The game \<open>staleBitGame\<close>, played from the start, reaches a state with
  eight squares in row 21, the rotated L piece about to land on (8, 19), (8, 20),
  (8, 21) and (9, 21), and a collision index that is consistent with the placed
  squares. The next firing of the interval lands the piece, which fills row 21, and
  removes the row: the squares at (8, 19) and (8, 20) are handed to
  \<open>_fallingSquares\<close> with their bits still set. At the second firing the square at
  (8, 19) is fixed where it is and the one at (8, 20) falls to (8, 21); at the third it
  is fixed there. Nothing is falling any more, and the index is not consistent: the bit
  of (8, 20) is set and no square is at (8, 20).
\<close>

theorem C1_stale_bit_after_clear:
  "(case run staleBitGame (StartGame initialState) of
      Inl e \<Rightarrow> False
    | Inr s \<Rightarrow>
        consistent s
        \<and> activePiece s =
            Piece \<lparr>piece_x = 7, piece_y = 19,
                   piece_m = [[FalseCell, Color ''orange'', FalseCell],
                              [FalseCell, Color ''orange'', FalseCell],
                              [FalseCell, Color ''orange'', Color ''orange'']]\<rparr>
        \<and> boardView s =
            ([(0, 21), (1, 21), (2, 21), (3, 21), (4, 21), (5, 21), (6, 21), (7, 21)], [],
             [0, 0, 255])
        \<and> (case step (Timer 0) s of
              Inl e \<Rightarrow> False
            | Inr s1 \<Rightarrow>
                boardView s1 = ([(8, 19), (8, 20)], [8, 9], [256, 256, 0])
                \<and> (case step (Timer 0) s1 of
                      Inl e \<Rightarrow> False
                    | Inr s2 \<Rightarrow>
                        boardView s2 = ([(8, 19), (8, 21)], [9], [256, 256, 0])
                        \<and> (case step (Timer 0) s2 of
                              Inl e \<Rightarrow> False
                            | Inr s3 \<Rightarrow>
                                boardView s3 = ([(8, 19), (8, 21)], [], [256, 256, 256])
                                \<and> SquareFixedAt (collisionRows s3) 8 20 = 256
                                \<and> squaresAt s3 8 20 = []
                                \<and> \<not> consistent s3))))"
  by code_simp

end
